theory Spec2Isabelle
  imports Complex_Main "HOL-Library.Word"
begin

section \<open>Optical spectroscopy: calibrated spectra from spectrometer photographs\<close>

text \<open>
  A shallow embedding of \<^verbatim>\<open>espectroscopia_optica_funcs.py\<close>: the column intensity
  extractor \<^verbatim>\<open>get_column_intensity\<close>, the two-point fit
  \<^verbatim>\<open>get_linear_transformation\<close>, the helium calibration
  \<^verbatim>\<open>get_wavelength_from_He\<close> and the assembler \<^verbatim>\<open>get_spectrum\<close>.

  Conventions of the embedding.
  \<^item> Finite floating-point values are real numbers: arithmetic is exact, rounding and
    overflow are not modelled. The only non-finite values the code can produce come from
    a numpy division by zero; they are kept as one value \<open>NonFinite\<close>.
  \<^item> Every \<^verbatim>\<open>raise\<close> is a value \<open>Inl e\<close> of a sum type; a returned value is \<open>Inr v\<close>.
  \<^item> The file system and the image decoder are a parameter \<open>imread\<close>; the library peak
    detector is a parameter \<open>find_peaks\<close>; matplotlib rendering is reduced to the kind of
    figure that is returned.
\<close>

subsection \<open>Exceptions\<close>

text \<open>
  \<open>CvError\<close>: \<^verbatim>\<open>cv2.error\<close>, raised by \<^verbatim>\<open>cv.cvtColor\<close> when \<^verbatim>\<open>cv.imread\<close> gave no image.
  \<open>IndexError\<close>: an index array reaches outside the indexed array.
  \<open>ValueError_argmax\<close>: \<^verbatim>\<open>np.argmax\<close> of an empty sequence.
  \<open>ValueError_unpack\<close>: \<^verbatim>\<open>x0, x1 = ...\<close> on a sequence that has not exactly two elements.
  \<open>ZeroDivisionError\<close>: true division of built-in numbers by zero.
  \<open>ValueError_plot\<close>: the \<^verbatim>\<open>raise ValueError\<close> that ends \<^verbatim>\<open>get_spectrum\<close>.
\<close>

datatype error =
    CvError
  | IndexError
  | ValueError_argmax
  | ValueError_unpack
  | ZeroDivisionError
  | ValueError_plot

subsection \<open>Numbers as Python sees them\<close>

text \<open>
  Python dispatches an arithmetic operator on the run-time type of its operands. A
  built-in \<^verbatim>\<open>int\<close> or \<^verbatim>\<open>float\<close> (\<open>Py\<close>) divided by zero raises
  \<^verbatim>\<open>ZeroDivisionError\<close>. As soon as one operand is a numpy scalar (\<open>Np\<close>: the
  \<^verbatim>\<open>np.int64\<close> obtained by unpacking an index array, or an \<^verbatim>\<open>np.float64\<close>), the
  operation is numpy's: its result is a numpy scalar, and a division by zero gives
  \<^verbatim>\<open>inf\<close> or \<^verbatim>\<open>nan\<close> with a \<^verbatim>\<open>RuntimeWarning\<close> and raises nothing.
\<close>

datatype scalar = Py real | Np real

fun val :: "scalar \<Rightarrow> real" where
  "val (Py r) = r"
| "val (Np r) = r"

fun is_np :: "scalar \<Rightarrow> bool" where
  "is_np (Py r) = False"
| "is_np (Np r) = True"

datatype py_float = Finite real | NonFinite

definition sub :: "scalar \<Rightarrow> scalar \<Rightarrow> scalar" where
  "sub a c = (if is_np a \<or> is_np c then Np (val a - val c) else Py (val a - val c))"

definition truediv :: "scalar \<Rightarrow> scalar \<Rightarrow> error + py_float" where
  "truediv a c =
     (if val c = 0
      then (if is_np a \<or> is_np c then Inr NonFinite else Inl ZeroDivisionError)
      else Inr (Finite (val a / val c)))"

text \<open>
  Multiplication, addition and subtraction never raise. A non-finite operand gives a
  non-finite result: \<^verbatim>\<open>inf*0\<close> and \<^verbatim>\<open>inf - inf\<close> are \<^verbatim>\<open>nan\<close>, every other
  combination with \<^verbatim>\<open>inf\<close> or \<^verbatim>\<open>nan\<close> is \<^verbatim>\<open>inf\<close> or \<^verbatim>\<open>nan\<close>.
\<close>

fun fmul :: "py_float \<Rightarrow> py_float \<Rightarrow> py_float" where
  "fmul (Finite u) (Finite v) = Finite (u * v)"
| "fmul _ _ = NonFinite"

fun fadd :: "py_float \<Rightarrow> py_float \<Rightarrow> py_float" where
  "fadd (Finite u) (Finite v) = Finite (u + v)"
| "fadd _ _ = NonFinite"

fun fsub :: "py_float \<Rightarrow> py_float \<Rightarrow> py_float" where
  "fsub (Finite u) (Finite v) = Finite (u - v)"
| "fsub _ _ = NonFinite"

subsection \<open>The linear calibration fit\<close>

text \<open>
  \<^verbatim>\<open>
  def get_linear_transformation(x0, x1, y0, y1):
      m = (y1 - y0)/(x1 - x0)
      b = y0 - m*x0
      return lambda x: m*x + b
  \<close>
  The returned closure is represented by the two variables it captures; \<open>call\<close> is its
  body.
\<close>

record linear_transformation =
  lam_m :: py_float
  lam_b :: py_float

definition get_linear_transformation ::
  "scalar \<Rightarrow> scalar \<Rightarrow> scalar \<Rightarrow> scalar \<Rightarrow> error + linear_transformation" where
  "get_linear_transformation x0 x1 y0 y1 =
     (case truediv (sub y1 y0) (sub x1 x0) of
        Inl e \<Rightarrow> Inl e
      | Inr m \<Rightarrow>
          Inr \<lparr>lam_m = m, lam_b = fsub (Finite (val y0)) (fmul m (Finite (val x0)))\<rparr>)"

definition call :: "linear_transformation \<Rightarrow> py_float \<Rightarrow> py_float" where
  "call f x = fadd (fmul (lam_m f) x) (lam_b f)"

subsection \<open>The column intensity extractor\<close>

text \<open>
  \<^verbatim>\<open>
  def get_column_intensity(file):
      img = cv.imread(file,)
      grayscale = cv.cvtColor(img, cv.COLOR_BGR2GRAY)
      return np.sum(grayscale, axis=0)/grayscale.shape[0]
  \<close>
  An image is its shape and the 8-bit brightness that \<^verbatim>\<open>cvtColor\<close> gives each pixel
  (row first, as numpy indexes it). \<open>imread file\<close> is \<open>None\<close> for a file that cannot be
  decoded; \<^verbatim>\<open>cvtColor\<close> then raises. A decoded image has at least one row, so the
  division is by a positive height; a grid without rows is refused like an undecodable
  file. numpy adds 8-bit values in a 64-bit accumulator, which no image that fits in
  memory can overflow, so the column sum is the exact sum.
\<close>

record image =
  height :: nat
  width :: nat
  gray :: "nat \<Rightarrow> nat \<Rightarrow> 8 word"

definition column_sum :: "image \<Rightarrow> nat \<Rightarrow> nat" where
  "column_sum img j = sum_list (map (\<lambda>i. unat (gray img i j)) [0..<height img])"

definition get_column_intensity :: "(string \<Rightarrow> image option) \<Rightarrow> string \<Rightarrow> error + real list" where
  "get_column_intensity imread file =
     (case imread file of
        None \<Rightarrow> Inl CvError
      | Some img \<Rightarrow>
          if height img = 0 then Inl CvError
          else Inr (map (\<lambda>j. real (column_sum img j) / real (height img)) [0..<width img]))"

subsection \<open>numpy helpers used by the calibration\<close>

text \<open>
  \<^verbatim>\<open>np.argmax\<close>: the index of the first occurrence of the maximum; an empty array
  raises \<^verbatim>\<open>ValueError\<close>. \<open>argmax_from best bv i vs\<close> scans the values \<open>vs\<close>, the first
  of which has index \<open>i\<close>, holding the best index and value seen so far.
\<close>

fun argmax_from :: "nat \<Rightarrow> real \<Rightarrow> nat \<Rightarrow> real list \<Rightarrow> nat" where
  "argmax_from best bv i [] = best"
| "argmax_from best bv i (v # vs) =
     (if bv < v then argmax_from i v (Suc i) vs else argmax_from best bv (Suc i) vs)"

definition argmax :: "real list \<Rightarrow> error + nat" where
  "argmax vs = (case vs of [] \<Rightarrow> Inl ValueError_argmax | v # rest \<Rightarrow> Inr (argmax_from 0 v 1 rest))"

text \<open>
  Indexing an array with an array of indices (\<^verbatim>\<open>intensity[peaks[0]]\<close>,
  \<^verbatim>\<open>peaks[0][[k-1, k]]\<close>): one element per index, \<^verbatim>\<open>IndexError\<close> when an index is
  out of bounds. The indices here are never negative.
\<close>

definition index_array :: "'a list \<Rightarrow> nat list \<Rightarrow> error + 'a list" where
  "index_array xs idx =
     (if list_all (\<lambda>i. i < length xs) idx then Inr (map (\<lambda>i. xs ! i) idx) else Inl IndexError)"

text \<open>\<^verbatim>\<open>x0, x1 = seq\<close>: the sequence must have exactly two elements.\<close>

fun unpack2 :: "'a list \<Rightarrow> error + ('a \<times> 'a)" where
  "unpack2 [u, v] = Inr (u, v)"
| "unpack2 _ = Inl ValueError_unpack"

subsection \<open>The helium calibration\<close>

text \<open>
  \<^verbatim>\<open>
  def get_wavelength_from_He(He_file, offset=0):
      intensity = get_column_intensity(He_file)
      peaks = find_peaks(intensity, prominence=10, distance=20)
      peak_vals = intensity[peaks[0]]
      order_max_max = np.argmax(peak_vals)
      if order_max_max == 0:
          x0, x1 = peaks[0][:2] + offset
          pixel_to_wavelen = get_linear_transformation(x0, x1, y0=588.87, y1=669.07)
      else:
          x0, x1 = peaks[0][[order_max_max-1, order_max_max]] + offset
          pixel_to_wavelen = get_linear_transformation(x0, x1, y0=502.60, y1=588.87)
      return pixel_to_wavelen(np.arange(intensity.size))
  \<close>
  \<open>find_peaks intensity\<close> stands for \<^verbatim>\<open>find_peaks(intensity, prominence=10,
  distance=20)[0]\<close>, the array of peak indices returned by scipy. \<open>pixel_to_wavelen\<close> is
  the local variable of that name: everything between the extraction of the profile and
  the final application. The anchors \<open>x0\<close>, \<open>x1\<close> are numpy integers, the wavelengths
  are float literals.
\<close>

definition pixel_to_wavelen ::
  "(real list \<Rightarrow> nat list) \<Rightarrow> real list \<Rightarrow> int \<Rightarrow> error + linear_transformation" where
  "pixel_to_wavelen find_peaks intensity offset =
     (let peaks = find_peaks intensity in
      case index_array intensity peaks of
        Inl e \<Rightarrow> Inl e
      | Inr peak_vals \<Rightarrow>
          (case argmax peak_vals of
             Inl e \<Rightarrow> Inl e
           | Inr order_max_max \<Rightarrow>
               if order_max_max = 0 then
                 (case unpack2 (map (\<lambda>p. int p + offset) (take 2 peaks)) of
                    Inl e \<Rightarrow> Inl e
                  | Inr (x0, x1) \<Rightarrow>
                      get_linear_transformation (Np (of_int x0)) (Np (of_int x1))
                        (Py 588.87) (Py 669.07))
               else
                 (case index_array peaks [order_max_max - 1, order_max_max] of
                    Inl e \<Rightarrow> Inl e
                  | Inr sel \<Rightarrow>
                      (case unpack2 (map (\<lambda>p. int p + offset) sel) of
                         Inl e \<Rightarrow> Inl e
                       | Inr (x0, x1) \<Rightarrow>
                           get_linear_transformation (Np (of_int x0)) (Np (of_int x1))
                             (Py 502.60) (Py 588.87)))))"

definition get_wavelength_from_He ::
  "(string \<Rightarrow> image option) \<Rightarrow> (real list \<Rightarrow> nat list) \<Rightarrow> string \<Rightarrow> int \<Rightarrow> error + py_float list" where
  "get_wavelength_from_He imread find_peaks He_file offset =
     (case get_column_intensity imread He_file of
        Inl e \<Rightarrow> Inl e
      | Inr intensity \<Rightarrow>
          (case pixel_to_wavelen find_peaks intensity offset of
             Inl e \<Rightarrow> Inl e
           | Inr f \<Rightarrow> Inr (map (\<lambda>i. call f (Finite (real i))) [0..<length intensity])))"

subsection \<open>The spectrum assembler\<close>

text \<open>
  \<^verbatim>\<open>
  def get_spectrum(file, He_file, plot=False, spectrum_offset=0):
      wavelengths = get_wavelength_from_He(He_file, spectrum_offset)
      intensity = get_column_intensity(file)
      if plot is False:
          return wavelengths, intensity
      elif plot == 'above' or plot is True:
          ...
          return wavelengths, intensity, fig, axs
      elif plot == 'over':
          ...
          return wavelengths, intensity, fig, [ax, ]
      else:
          raise ValueError(...)
  \<close>
  The flag is a \<^verbatim>\<open>bool\<close> or a \<^verbatim>\<open>str\<close>. The figure and axes are reduced to the
  layout that was drawn; the drawing itself is not modelled.
\<close>

datatype plot_arg = PyBool bool | PyStr string

datatype figure = FigAbove | FigOver

definition get_spectrum ::
  "(string \<Rightarrow> image option) \<Rightarrow> (real list \<Rightarrow> nat list) \<Rightarrow> string \<Rightarrow> string \<Rightarrow> plot_arg \<Rightarrow> int
     \<Rightarrow> error + (py_float list \<times> real list \<times> figure option)" where
  "get_spectrum imread find_peaks file He_file plot spectrum_offset =
     (case get_wavelength_from_He imread find_peaks He_file spectrum_offset of
        Inl e \<Rightarrow> Inl e
      | Inr wavelengths \<Rightarrow>
          (case get_column_intensity imread file of
             Inl e \<Rightarrow> Inl e
           | Inr intensity \<Rightarrow>
               if plot = PyBool False then Inr (wavelengths, intensity, None)
               else if plot = PyStr ''above'' \<or> plot = PyBool True
                 then Inr (wavelengths, intensity, Some FigAbove)
               else if plot = PyStr ''over''
                 then Inr (wavelengths, intensity, Some FigOver)
               else Inl ValueError_plot))"

subsection \<open>A reference peak detector\<close>

text \<open>
  \<^verbatim>\<open>scipy.signal.find_peaks\<close> is a library routine; the calibration above takes it
  as a parameter, and the theorems about the calibration hold for every detector that
  meets the stated conditions. The definitions below follow the routine's documented
  procedure for the two conditions the program passes (a minimal distance, then a minimal
  prominence), so that the calibration can be run on concrete images:
  \<^enum> the local maxima of the profile: a sample strictly above its left neighbour, followed
    by a plateau of equal samples and then a strictly lower sample; the peak is the
    middle of the plateau (rounded down); the first and the last sample are never peaks;
  \<^enum> among peaks closer than \<open>distance\<close> samples, the higher ones survive: peaks are
    visited from the highest down, and a peak that is still kept removes every other
    peak closer than \<open>distance\<close> (peaks of equal height are visited from the right);
  \<^enum> the prominence of a peak is its height above the higher of the two lowest samples
    met when walking left and right until a sample exceeds the peak or the profile ends;
    peaks of prominence below \<open>prominence\<close> are dropped.
\<close>

function plateau_end :: "real list \<Rightarrow> nat \<Rightarrow> nat \<Rightarrow> nat" where
  "plateau_end x i i_ahead =
     (if i_ahead < length x - 1 \<and> x ! i_ahead = x ! i
      then plateau_end x i (i_ahead + 1) else i_ahead)"
  by pat_completeness auto
termination
  by (relation "measure (\<lambda>(x, i, i_ahead). length x - i_ahead)") auto

declare plateau_end.simps [simp del]

lemma plateau_end_ge: "i_ahead \<le> plateau_end x i i_ahead"
proof (induction x i i_ahead rule: plateau_end.induct)
  case (1 x i i_ahead)
  show ?case
  proof (cases "i_ahead < length x - 1 \<and> x ! i_ahead = x ! i")
    case True
    then have "plateau_end x i i_ahead = plateau_end x i (i_ahead + 1)"
      by (subst plateau_end.simps) simp
    with 1 True show ?thesis by simp
  next
    case False
    then have "plateau_end x i i_ahead = i_ahead"
      by (subst plateau_end.simps) auto
    then show ?thesis by simp
  qed
qed

function local_maxima_from :: "real list \<Rightarrow> nat \<Rightarrow> nat list" where
  "local_maxima_from x i =
     (if i < length x - 1 then
        (if x ! (i - 1) < x ! i then
           (let i_ahead = plateau_end x i (i + 1) in
            if x ! i_ahead < x ! i
            then ((i + (i_ahead - 1)) div 2) # local_maxima_from x (i_ahead + 1)
            else local_maxima_from x (i + 1))
         else local_maxima_from x (i + 1))
      else [])"
  by pat_completeness auto
termination
proof (relation "measure (\<lambda>(x, i). length x - i)")
  show "wf (measure (\<lambda>(x, i). length x - i))" by simp
next
  fix x :: "real list" and i xa
  assume "i < length x - 1" "xa = plateau_end x i (i + 1)"
  then show "((x, xa + 1), x, i) \<in> measure (\<lambda>(x, i). length x - i)"
    using plateau_end_ge [of "i + 1" x i] by simp
qed auto

declare local_maxima_from.simps [simp del]

definition local_maxima_1d :: "real list \<Rightarrow> nat list" where
  "local_maxima_1d x = local_maxima_from x 1"

definition select_by_peak_distance :: "nat list \<Rightarrow> real list \<Rightarrow> nat \<Rightarrow> bool list" where
  "select_by_peak_distance peaks priority distance =
     fold (\<lambda>j keep.
             if keep ! j
             then map (\<lambda>k. keep ! k \<and>
                           (k = j \<or> distance \<le> (peaks ! k - peaks ! j) + (peaks ! j - peaks ! k)))
                    [0..<length peaks]
             else keep)
          (rev (sort_key (\<lambda>j. priority ! j) [0..<length peaks]))
          (replicate (length peaks) True)"

definition peak_prominence :: "real list \<Rightarrow> nat \<Rightarrow> real" where
  "peak_prominence x peak =
     (let left_min = fold min (takeWhile (\<lambda>v. v \<le> x ! peak) (rev (take (Suc peak) x))) (x ! peak);
          right_min = fold min (takeWhile (\<lambda>v. v \<le> x ! peak) (drop peak x)) (x ! peak)
      in x ! peak - max left_min right_min)"

definition find_peaks_ref :: "real \<Rightarrow> nat \<Rightarrow> real list \<Rightarrow> nat list" where
  "find_peaks_ref prominence distance x =
     (let peaks = local_maxima_1d x;
          keep = select_by_peak_distance peaks (map (\<lambda>p. x ! p) peaks) distance;
          peaks = map fst (filter snd (zip peaks keep))
      in filter (\<lambda>p. prominence \<le> peak_prominence x p) peaks)"

text \<open>The detector as the program calls it: \<^verbatim>\<open>prominence=10, distance=20\<close>.\<close>

definition scipy_find_peaks :: "real list \<Rightarrow> nat list" where
  "scipy_find_peaks = find_peaks_ref 10 20"

subsection \<open>Vocabulary of the properties\<close>

text \<open>
  \<open>first_max vs k\<close>: position \<open>k\<close> holds the maximum of \<open>vs\<close>, and no earlier position
  does.
\<close>

definition first_max :: "real list \<Rightarrow> nat \<Rightarrow> bool" where
  "first_max vs k =
     (k < length vs \<and> (\<forall>j<length vs. vs ! j \<le> vs ! k) \<and> (\<forall>j<k. vs ! j < vs ! k))"

text \<open>The flags that \<^verbatim>\<open>get_spectrum\<close> recognises.\<close>

definition recognized_plot :: "plot_arg set" where
  "recognized_plot = {PyBool False, PyBool True, PyStr ''above'', PyStr ''over''}"

text \<open>Observations of a result, for statements about concrete runs.\<close>

definition wavelength_at :: "error + py_float list \<Rightarrow> nat \<Rightarrow> py_float option" where
  "wavelength_at r i =
     (case r of Inl e \<Rightarrow> None | Inr ws \<Rightarrow> if i < length ws then Some (ws ! i) else None)"

definition spectrum_lengths ::
  "error + (py_float list \<times> real list \<times> figure option) \<Rightarrow> (nat \<times> nat) option" where
  "spectrum_lengths r =
     (case r of Inl e \<Rightarrow> None | Inr (ws, ints, fig) \<Rightarrow> Some (length ws, length ints))"

subsection \<open>Example images\<close>

text \<open>
  A single-row image of width \<open>w\<close> that is black except for brightness 50 in column 100
  and brightness 80 in column 300, and the profile it has.
\<close>

definition synthetic_image :: "nat \<Rightarrow> image" where
  "synthetic_image w =
     \<lparr>height = 1, width = w, gray = (\<lambda>i j. if j = 100 then 50 else if j = 300 then 80 else 0)\<rparr>"

definition synthetic_profile :: "nat \<Rightarrow> real list" where
  "synthetic_profile w = map (\<lambda>j. if j = 100 then 50 else if j = 300 then 80 else 0) [0..<w]"

text \<open>A two-row image of three columns; its profile is \<open>[0, 15, 0]\<close>.\<close>

definition lamp_image :: image where
  "lamp_image =
     \<lparr>height = 2, width = 3, gray = (\<lambda>i j. if j = 1 then (if i = 0 then 10 else 20) else 0)\<rparr>"

text \<open>A directory with these two images and nothing else.\<close>

definition example_files :: "string \<Rightarrow> image option" where
  "example_files file =
     (if file = ''He.png'' then Some (synthetic_image 400)
      else if file = ''lamp.png'' then Some lamp_image
      else None)"

section \<open>Properties\<close>

subsection \<open>Arithmetic of the fit\<close>

lemma val_sub [simp]: "val (sub a c) = val a - val c"
  by (simp add: sub_def)

lemma is_np_sub [simp]: "is_np (sub a c) = (is_np a \<or> is_np c)"
  by (simp add: sub_def)

lemma get_linear_transformation_regular:
  assumes "val x0 \<noteq> val x1"
  shows "get_linear_transformation x0 x1 y0 y1 =
           Inr \<lparr>lam_m = Finite ((val y1 - val y0) / (val x1 - val x0)),
                lam_b = Finite (val y0 - (val y1 - val y0) / (val x1 - val x0) * val x0)\<rparr>"
  using assms by (simp add: get_linear_transformation_def truediv_def)

lemma call_finite [simp]:
  "call \<lparr>lam_m = Finite m, lam_b = Finite c\<rparr> (Finite x) = Finite (m * x + c)"
  by (simp add: call_def)

lemma call_non_finite [simp]: "call \<lparr>lam_m = NonFinite, lam_b = c\<rparr> x = NonFinite"
  by (simp add: call_def)

text \<open>
  Claim C7. For anchors \<open>(x0, y0)\<close> and \<open>(x1, y1)\<close> at different pixel positions the fit
  returns a transform, and the transform maps each anchor pixel to its anchor wavelength
  (exactly, in the exact arithmetic of the embedding).
\<close>

theorem transform_round_trip:
  assumes "val x0 \<noteq> val x1"
  shows "\<exists>f. get_linear_transformation x0 x1 y0 y1 = Inr f
             \<and> call f (Finite (val x0)) = Finite (val y0)
             \<and> call f (Finite (val x1)) = Finite (val y1)"
proof -
  let ?m = "(val y1 - val y0) / (val x1 - val x0)"
  let ?f = "\<lparr>lam_m = Finite ?m, lam_b = Finite (val y0 - ?m * val x0)\<rparr>"
  have d: "val x1 - val x0 \<noteq> 0" using assms by simp
  have fit: "get_linear_transformation x0 x1 y0 y1 = Inr ?f"
    by (rule get_linear_transformation_regular [OF assms])
  have "?m * val x1 + (val y0 - ?m * val x0) = val y0 + ?m * (val x1 - val x0)"
    by (simp add: right_diff_distrib)
  also have "\<dots> = val y1" using d by simp
  finally have at1: "call ?f (Finite (val x1)) = Finite (val y1)"
    by simp
  have at0: "call ?f (Finite (val x0)) = Finite (val y0)"
    by simp
  from fit at0 at1 show ?thesis by blast
qed

theorem transform_round_trip_witness:
  "val (Np 100) \<noteq> val (Np 300)
   \<and> (\<exists>f. get_linear_transformation (Np 100) (Np 300) (Py 502.60) (Py 588.87) = Inr f
          \<and> call f (Finite 100) = Finite 502.60 \<and> call f (Finite 300) = Finite 588.87)"
  using transform_round_trip [of "Np 100" "Np 300" "Py 502.60" "Py 588.87"] by simp

text \<open>
  Claim C8. Moving both anchor pixels by the same amount \<open>d\<close> leaves the slope of the fit
  unchanged and lowers the intercept by slope times \<open>d\<close>.
\<close>

theorem offset_shifts_intercept:
  assumes "val x0 \<noteq> val x1"
    and "val x0' = val x0 + d" and "val x1' = val x1 + d"
  shows "\<exists>m c. get_linear_transformation x0 x1 y0 y1 = Inr \<lparr>lam_m = Finite m, lam_b = Finite c\<rparr>
             \<and> get_linear_transformation x0' x1' y0 y1
                 = Inr \<lparr>lam_m = Finite m, lam_b = Finite (c - m * d)\<rparr>"
proof -
  let ?m = "(val y1 - val y0) / (val x1 - val x0)"
  have ne: "val x0' \<noteq> val x1'" using assms by simp
  have diff: "val x1' - val x0' = val x1 - val x0" using assms by simp
  have one: "get_linear_transformation x0 x1 y0 y1
               = Inr \<lparr>lam_m = Finite ?m, lam_b = Finite (val y0 - ?m * val x0)\<rparr>"
    by (rule get_linear_transformation_regular [OF assms(1)])
  have "get_linear_transformation x0' x1' y0 y1
          = Inr \<lparr>lam_m = Finite ?m, lam_b = Finite (val y0 - ?m * val x0')\<rparr>"
    using get_linear_transformation_regular [OF ne, of y0 y1] diff by simp
  moreover have "val y0 - ?m * val x0' = (val y0 - ?m * val x0) - ?m * d"
    by (simp add: assms(2) distrib_left)
  ultimately have two: "get_linear_transformation x0' x1' y0 y1
          = Inr \<lparr>lam_m = Finite ?m, lam_b = Finite ((val y0 - ?m * val x0) - ?m * d)\<rparr>"
    by simp
  from one two show ?thesis by blast
qed

theorem offset_shifts_intercept_witness:
  "val (Np 100) \<noteq> val (Np 300) \<and> val (Np 107) = val (Np 100) + 7
   \<and> val (Np 307) = val (Np 300) + 7
   \<and> (\<exists>m c. get_linear_transformation (Np 100) (Np 300) (Py 502.60) (Py 588.87)
                = Inr \<lparr>lam_m = Finite m, lam_b = Finite c\<rparr>
           \<and> get_linear_transformation (Np 107) (Np 307) (Py 502.60) (Py 588.87)
                = Inr \<lparr>lam_m = Finite m, lam_b = Finite (c - m * 7)\<rparr>)"
  using offset_shifts_intercept [of "Np 100" "Np 300" "Np 107" 7 "Np 307" "Py 502.60" "Py 588.87"]
  by simp

text \<open>
  Claim C4, as stated, fails: with numpy integers as anchors (what
  \<^verbatim>\<open>get_wavelength_from_He\<close> passes) two anchors at pixel 5 raise nothing; a transform
  with a non-finite slope and intercept is returned.
\<close>

theorem equal_anchors_numpy_counterexample:
  "get_linear_transformation (Np 5) (Np 5) (Py 588.87) (Py 669.07)
     = Inr \<lparr>lam_m = NonFinite, lam_b = NonFinite\<rparr>"
  by (simp add: get_linear_transformation_def truediv_def)

text \<open>
  Claim C4, amended. For two anchors at the same pixel position the fit raises
  \<^verbatim>\<open>ZeroDivisionError\<close> when all four arguments are built-in Python numbers; when one
  of them is a numpy scalar it raises nothing and returns a transform whose slope and
  intercept are not finite.
\<close>

theorem equal_anchors:
  assumes "val x0 = val x1"
  shows "get_linear_transformation x0 x1 y0 y1 =
           (if is_np x0 \<or> is_np x1 \<or> is_np y0 \<or> is_np y1
            then Inr \<lparr>lam_m = NonFinite, lam_b = NonFinite\<rparr>
            else Inl ZeroDivisionError)"
  using assms by (auto simp add: get_linear_transformation_def truediv_def)

theorem equal_anchors_witness:
  "val (Py 5) = val (Py 5)
   \<and> get_linear_transformation (Py 5) (Py 5) (Py 588.87) (Py 669.07) = Inl ZeroDivisionError"
  using equal_anchors [of "Py 5" "Py 5" "Py 588.87" "Py 669.07"] by simp

subsection \<open>np.argmax\<close>

lemma first_max_unique:
  assumes "first_max vs k" and "first_max vs k'"
  shows "k = k'"
proof (rule ccontr)
  assume "k \<noteq> k'"
  then consider "k < k'" | "k' < k" by linarith
  then show False
  proof cases
    case 1
    with assms have "vs ! k < vs ! k'" "vs ! k' \<le> vs ! k"
      by (simp_all add: first_max_def)
    then show False by simp
  next
    case 2
    with assms have "vs ! k' < vs ! k" "vs ! k \<le> vs ! k'"
      by (simp_all add: first_max_def)
    then show False by simp
  qed
qed

lemma first_max_snoc_greater:
  assumes "first_max pre best" and "pre ! best < v"
  shows "first_max (pre @ [v]) (length pre)"
  using assms
  by (auto simp add: first_max_def nth_append less_Suc_eq intro: order.strict_trans1 less_imp_le)

lemma first_max_snoc_keep:
  assumes "first_max pre best" and "\<not> pre ! best < v"
  shows "first_max (pre @ [v]) best"
  using assms by (auto simp add: first_max_def nth_append less_Suc_eq)

lemma argmax_from_first_max:
  assumes "first_max pre best" and "bv = pre ! best" and "i = length pre"
  shows "first_max (pre @ vs) (argmax_from best bv i vs)"
  using assms
proof (induction vs arbitrary: pre best bv i)
  case Nil
  then show ?case by simp
next
  case (Cons v vs)
  show ?case
  proof (cases "bv < v")
    case True
    have "first_max (pre @ [v]) (length pre)"
      using Cons.prems True by (simp add: first_max_snoc_greater)
    then have "first_max ((pre @ [v]) @ vs) (argmax_from (length pre) v (Suc (length pre)) vs)"
      by (rule Cons.IH) simp_all
    with True Cons.prems show ?thesis by simp
  next
    case False
    have "first_max (pre @ [v]) best"
      using Cons.prems False by (simp add: first_max_snoc_keep)
    moreover have "best < length pre"
      using Cons.prems by (simp add: first_max_def)
    ultimately have "first_max ((pre @ [v]) @ vs) (argmax_from best bv (Suc (length pre)) vs)"
      using Cons.prems by (intro Cons.IH) (simp_all add: nth_append)
    with False Cons.prems show ?thesis by simp
  qed
qed

lemma argmax_first_max:
  assumes "vs \<noteq> []"
  shows "\<exists>k. argmax vs = Inr k \<and> first_max vs k"
proof -
  from assms obtain v rest where vs: "vs = v # rest" by (cases vs) auto
  have "first_max [v] 0" by (simp add: first_max_def)
  then have "first_max ([v] @ rest) (argmax_from 0 ([v] ! 0) (length [v]) rest)"
    by (rule argmax_from_first_max) simp_all
  then show ?thesis by (simp add: vs argmax_def)
qed

lemma argmax_eq:
  assumes "first_max vs k"
  shows "argmax vs = Inr k"
proof -
  from assms have "vs \<noteq> []" by (auto simp add: first_max_def)
  then obtain k' where "argmax vs = Inr k'" "first_max vs k'"
    using argmax_first_max by blast
  with assms first_max_unique show ?thesis by blast
qed

lemma first_max_pair: "a < c \<Longrightarrow> first_max [a, c] (Suc 0)"
  by (auto simp add: first_max_def less_Suc_eq)

subsection \<open>The two branches of the calibration\<close>

lemma index_array_valid:
  assumes "\<forall>i\<in>set idx. i < length xs"
  shows "index_array xs idx = Inr (map (\<lambda>i. xs ! i) idx)"
  using assms by (simp add: index_array_def list_all_iff)

lemma pixel_to_wavelen_first:
  assumes peaks: "find_peaks intensity = p0 # p1 # rest"
    and valid: "\<forall>p\<in>set (p0 # p1 # rest). p < length intensity"
    and mx: "first_max (map (\<lambda>p. intensity ! p) (p0 # p1 # rest)) 0"
  shows "pixel_to_wavelen find_peaks intensity offset =
           get_linear_transformation (Np (of_int (int p0 + offset))) (Np (of_int (int p1 + offset)))
             (Py 588.87) (Py 669.07)"
proof -
  have "argmax (map (\<lambda>p. intensity ! p) (p0 # p1 # rest)) = Inr 0"
    using mx by (rule argmax_eq)
  then show ?thesis
    using index_array_valid [OF valid]
    by (simp add: pixel_to_wavelen_def Let_def peaks)
qed

lemma pixel_to_wavelen_later:
  assumes peaks: "find_peaks intensity = peaks"
    and k: "0 < k" "k < length peaks"
    and valid: "\<forall>p\<in>set peaks. p < length intensity"
    and mx: "first_max (map (\<lambda>p. intensity ! p) peaks) k"
  shows "pixel_to_wavelen find_peaks intensity offset =
           get_linear_transformation
             (Np (of_int (int (peaks ! (k - 1)) + offset)))
             (Np (of_int (int (peaks ! k) + offset)))
             (Py 502.60) (Py 588.87)"
proof -
  have "argmax (map (\<lambda>p. intensity ! p) peaks) = Inr k"
    using mx by (rule argmax_eq)
  moreover have "index_array peaks [k - 1, k] = Inr [peaks ! (k - 1), peaks ! k]"
    using k by (simp add: index_array_def)
  ultimately show ?thesis
    using index_array_valid [OF valid] k
    by (simp add: pixel_to_wavelen_def Let_def peaks)
qed

subsection \<open>The example images\<close>

lemma column_intensity_synthetic:
  assumes "imread file = Some (synthetic_image w)"
  shows "get_column_intensity imread file = Inr (synthetic_profile w)"
  using assms
  by (simp add: get_column_intensity_def synthetic_image_def synthetic_profile_def column_sum_def)

lemma column_intensity_He: "get_column_intensity example_files ''He.png'' = Inr (synthetic_profile 400)"
  by (rule column_intensity_synthetic) (simp add: example_files_def)

lemma detector_on_synthetic: "scipy_find_peaks (synthetic_profile 400) = [100, 300]"
  by code_simp

lemma column_intensity_lamp: "get_column_intensity example_files ''lamp.png'' = Inr [0, 15, 0]"
  by (simp add: get_column_intensity_def example_files_def lamp_image_def column_sum_def upt_rec)

lemma detector_on_lamp: "scipy_find_peaks [0, 15, 0] = [1]"
  by code_simp

lemma synthetic_profile_values:
  assumes "300 < w"
  shows "length (synthetic_profile w) = w" and "synthetic_profile w ! 100 = 50"
    and "synthetic_profile w ! 300 = 80"
  using assms by (simp_all add: synthetic_profile_def)

lemma pixel_to_wavelen_synthetic:
  assumes "300 < w" and "find_peaks (synthetic_profile w) = [100, 300]"
  shows "pixel_to_wavelen find_peaks (synthetic_profile w) offset =
           get_linear_transformation (Np (of_int (100 + offset))) (Np (of_int (300 + offset)))
             (Py 502.60) (Py 588.87)"
proof -
  have valid: "\<forall>p\<in>set [100, 300]. p < length (synthetic_profile w)"
    using assms(1) by (simp add: synthetic_profile_values)
  have mx: "first_max (map (\<lambda>p. synthetic_profile w ! p) [100, 300]) (Suc 0)"
    using assms(1) by (simp add: synthetic_profile_values first_max_pair)
  have "pixel_to_wavelen find_peaks (synthetic_profile w) offset =
           get_linear_transformation
             (Np (of_int (int ([100, 300] ! (Suc 0 - 1)) + offset)))
             (Np (of_int (int ([100, 300] ! Suc 0) + offset)))
             (Py 502.60) (Py 588.87)"
    using assms(2) valid mx by (intro pixel_to_wavelen_later) simp_all
  then show ?thesis by simp
qed

subsection \<open>Branch selection\<close>

text \<open>
  Claim C2. Let the detector return at least two peaks, in ascending pixel order and inside
  the profile. Some position \<open>k\<close> of the peak list holds the first maximal peak
  intensity (what \<^verbatim>\<open>np.argmax\<close> returns). If \<open>k = 0\<close>, the fit is made on the first
  two peaks, the lower pixel bound to 588.87 and the higher to 669.07. If \<open>k > 0\<close>, it is
  made on the peaks at positions \<open>k - 1\<close> and \<open>k\<close>, the lower pixel bound to 502.60 and
  the higher to 588.87. Both anchors are shifted by the offset.
\<close>

theorem fitter_branch_selection:
  assumes "find_peaks intensity = peaks"
    and "2 \<le> length peaks"
    and "sorted_wrt (<) peaks"
    and "\<forall>p\<in>set peaks. p < length intensity"
  shows "(\<exists>k. first_max (map (\<lambda>p. intensity ! p) peaks) k)
       \<and> (first_max (map (\<lambda>p. intensity ! p) peaks) 0 \<longrightarrow>
            peaks ! 0 < peaks ! 1
          \<and> pixel_to_wavelen find_peaks intensity offset =
              get_linear_transformation
                (Np (of_int (int (peaks ! 0) + offset))) (Np (of_int (int (peaks ! 1) + offset)))
                (Py 588.87) (Py 669.07))
       \<and> (\<forall>k. 0 < k \<and> first_max (map (\<lambda>p. intensity ! p) peaks) k \<longrightarrow>
            peaks ! (k - 1) < peaks ! k
          \<and> pixel_to_wavelen find_peaks intensity offset =
              get_linear_transformation
                (Np (of_int (int (peaks ! (k - 1)) + offset))) (Np (of_int (int (peaks ! k) + offset)))
                (Py 502.60) (Py 588.87))"
proof (intro conjI impI allI)
  have "map (\<lambda>p. intensity ! p) peaks \<noteq> []"
    using assms(2) by auto
  then show "\<exists>k. first_max (map (\<lambda>p. intensity ! p) peaks) k"
    using argmax_first_max by blast
next
  show "peaks ! 0 < peaks ! 1"
    using assms(2,3) by (simp add: sorted_wrt_nth_less)
next
  assume mx: "first_max (map (\<lambda>p. intensity ! p) peaks) 0"
  from assms(2) obtain p0 p1 rest where peaks: "peaks = p0 # p1 # rest"
    by (cases peaks; cases "tl peaks") auto
  have "pixel_to_wavelen find_peaks intensity offset =
          get_linear_transformation (Np (of_int (int p0 + offset))) (Np (of_int (int p1 + offset)))
            (Py 588.87) (Py 669.07)"
    using assms(1,4) mx unfolding peaks by (rule pixel_to_wavelen_first)
  then show "pixel_to_wavelen find_peaks intensity offset =
          get_linear_transformation
            (Np (of_int (int (peaks ! 0) + offset))) (Np (of_int (int (peaks ! 1) + offset)))
            (Py 588.87) (Py 669.07)"
    by (simp add: peaks)
next
  fix k
  assume "0 < k \<and> first_max (map (\<lambda>p. intensity ! p) peaks) k"
  then have k: "0 < k" "k < length peaks"
    by (simp_all add: first_max_def)
  then show "peaks ! (k - 1) < peaks ! k"
    using assms(3) by (simp add: sorted_wrt_nth_less)
next
  fix k
  assume a: "0 < k \<and> first_max (map (\<lambda>p. intensity ! p) peaks) k"
  then have k: "0 < k" "k < length peaks"
    by (simp_all add: first_max_def)
  from a have mx: "first_max (map (\<lambda>p. intensity ! p) peaks) k" by simp
  show "pixel_to_wavelen find_peaks intensity offset =
          get_linear_transformation
            (Np (of_int (int (peaks ! (k - 1)) + offset))) (Np (of_int (int (peaks ! k) + offset)))
            (Py 502.60) (Py 588.87)"
    using assms(1) k assms(4) mx by (rule pixel_to_wavelen_later)
qed

theorem fitter_branch_selection_witness:
  "scipy_find_peaks (synthetic_profile 400) = [100, 300]
   \<and> first_max (map (\<lambda>p. synthetic_profile 400 ! p) [100, 300]) 1
   \<and> pixel_to_wavelen scipy_find_peaks (synthetic_profile 400) 7 =
       get_linear_transformation (Np 107) (Np 307) (Py 502.60) (Py 588.87)"
proof -
  have peaks: "scipy_find_peaks (synthetic_profile 400) = [100, 300]"
    by (rule detector_on_synthetic)
  have h2: "2 \<le> length [100, 300 :: nat]" by simp
  have h3: "sorted_wrt (<) [100, 300 :: nat]" by simp
  have h4: "\<forall>p\<in>set [100, 300]. p < length (synthetic_profile 400)"
    by (simp add: synthetic_profile_values)
  have mx: "first_max (map (\<lambda>p. synthetic_profile 400 ! p) [100, 300]) 1"
    using first_max_pair [of 50 80] by (simp add: synthetic_profile_values)
  from fitter_branch_selection [of scipy_find_peaks "synthetic_profile 400" "[100, 300]" 7,
      OF peaks h2 h3 h4] mx
  have "pixel_to_wavelen scipy_find_peaks (synthetic_profile 400) 7 =
          get_linear_transformation (Np (of_int (int ([100, 300] ! (1 - 1)) + 7)))
            (Np (of_int (int ([100, 300] ! 1) + 7))) (Py 502.60) (Py 588.87)"
    by blast
  then have "pixel_to_wavelen scipy_find_peaks (synthetic_profile 400) 7 =
       get_linear_transformation (Np 107) (Np 307) (Py 502.60) (Py 588.87)"
    by simp
  with peaks mx show ?thesis by blast
qed

subsection \<open>Column means\<close>

lemma column_sum_eq: "column_sum img j = (\<Sum>i<height img. unat (gray img i j))"
  by (simp add: column_sum_def interv_sum_list_conv_sum_set_nat atLeast0LessThan)

lemma sum_two: "(\<Sum>i<2::nat. f i) = f 0 + (f 1 :: nat)"
  by (simp add: numeral_2_eq_2)

text \<open>
  Claim C9. For an image with \<open>H > 0\<close> rows and \<open>W\<close> columns the extractor returns a
  profile of length \<open>W\<close>, and entry \<open>j\<close> of the profile is the sum of the brightness of
  column \<open>j\<close> over all \<open>H\<close> rows, divided by \<open>H\<close>.
\<close>

theorem column_intensity_is_column_mean:
  assumes "imread file = Some img" and "0 < height img"
  shows "\<exists>profile. get_column_intensity imread file = Inr profile
           \<and> length profile = width img
           \<and> (\<forall>j<width img.
                 profile ! j = real (\<Sum>i<height img. unat (gray img i j)) / real (height img))"
  using assms by (simp add: get_column_intensity_def column_sum_eq)

theorem column_intensity_is_column_mean_witness:
  "example_files ''lamp.png'' = Some lamp_image \<and> 0 < height lamp_image
   \<and> (\<exists>profile. get_column_intensity example_files ''lamp.png'' = Inr profile
          \<and> length profile = 3 \<and> profile ! 1 = 15)"
proof -
  have f: "example_files ''lamp.png'' = Some lamp_image" by (simp add: example_files_def)
  have h: "0 < height lamp_image" by (simp add: lamp_image_def)
  from column_intensity_is_column_mean [of example_files "''lamp.png''" lamp_image, OF f h]
  obtain profile where p: "get_column_intensity example_files ''lamp.png'' = Inr profile"
    "length profile = width lamp_image"
    "\<forall>j<width lamp_image.
        profile ! j = real (\<Sum>i<height lamp_image. unat (gray lamp_image i j)) / real (height lamp_image)"
    by blast
  have w: "width lamp_image = 3" by (simp add: lamp_image_def)
  have "profile ! 1 = real (\<Sum>i<height lamp_image. unat (gray lamp_image i 1)) / real (height lamp_image)"
    using p(3) w by simp
  also have "\<dots> = real (unat (gray lamp_image 0 1) + unat (gray lamp_image 1 1)) / 2"
    by (simp add: lamp_image_def sum_two)
  also have "\<dots> = 15"
    by (simp add: lamp_image_def)
  finally have "profile ! 1 = 15" .
  with f h p(1,2) w show ?thesis by simp
qed

subsection \<open>Errors of the calibration\<close>

lemma index_array_error: "index_array xs idx = Inl e \<Longrightarrow> e = IndexError"
  by (simp add: index_array_def split: if_splits)

lemma argmax_error: "argmax vs = Inl e \<Longrightarrow> e = ValueError_argmax"
  by (simp add: argmax_def split: list.splits)

lemma unpack2_error: "unpack2 xs = Inl e \<Longrightarrow> e = ValueError_unpack"
  by (cases xs rule: unpack2.cases) simp_all

lemma get_linear_transformation_numpy:
  "\<exists>f. get_linear_transformation (Np u) (Np v) y0 y1 = Inr f"
  by (simp add: get_linear_transformation_def truediv_def)

lemma pixel_to_wavelen_error:
  assumes "pixel_to_wavelen find_peaks intensity offset = Inl e"
  shows "e \<in> {IndexError, ValueError_argmax, ValueError_unpack}"
proof -
  have np: "\<And>u v y0 y1. get_linear_transformation (Np u) (Np v) y0 y1 \<noteq> Inl e"
    using get_linear_transformation_numpy by (metis sum.distinct(1))
  show ?thesis
    using assms np
    by (auto simp add: pixel_to_wavelen_def Let_def
          split: sum.splits if_splits prod.splits
          dest: index_array_error argmax_error unpack2_error)
qed

lemma get_column_intensity_error: "get_column_intensity imread file = Inl e \<Longrightarrow> e = CvError"
  by (simp add: get_column_intensity_def split: option.splits if_splits)

lemma get_wavelength_from_He_error:
  assumes "get_wavelength_from_He imread find_peaks He_file offset = Inl e"
  shows "e \<in> {CvError, IndexError, ValueError_argmax, ValueError_unpack}"
  using assms
  by (auto simp add: get_wavelength_from_He_def split: sum.splits
        dest: get_column_intensity_error pixel_to_wavelen_error)

subsection \<open>Too few peaks\<close>

lemma pixel_to_wavelen_no_peaks:
  assumes "find_peaks intensity = []"
  shows "pixel_to_wavelen find_peaks intensity offset = Inl ValueError_argmax"
  using assms by (simp add: pixel_to_wavelen_def index_array_def argmax_def)

lemma pixel_to_wavelen_one_peak:
  assumes "find_peaks intensity = [p]"
  shows "pixel_to_wavelen find_peaks intensity offset =
           Inl (if p < length intensity then ValueError_unpack else IndexError)"
  using assms by (simp add: pixel_to_wavelen_def index_array_def argmax_def)

lemma plateau_end_flat:
  "plateau_end (replicate n c) i i_ahead \<le> max i_ahead (n - 1)"
proof (induction "replicate n c" i i_ahead rule: plateau_end.induct)
  case (1 i i_ahead)
  show ?case
    by (subst plateau_end.simps) (use 1 in \<open>auto simp add: max_def\<close>)
qed

lemma local_maxima_from_flat: "0 < i \<Longrightarrow> local_maxima_from (replicate n c) i = []"
proof (induction "replicate n c" i rule: local_maxima_from.induct)
  case (1 i)
  show ?case
  proof (cases "i < length (replicate n c) - 1")
    case True
    then have "\<not> replicate n c ! (i - 1) < replicate n c ! i" by simp
    with True 1 show ?thesis
      by (subst local_maxima_from.simps) simp
  next
    case False
    then show ?thesis by (subst local_maxima_from.simps) simp
  qed
qed

lemma find_peaks_flat: "scipy_find_peaks (replicate n c) = []"
  by (simp add: scipy_find_peaks_def find_peaks_ref_def local_maxima_1d_def
        local_maxima_from_flat select_by_peak_distance_def)

text \<open>
  Claim C5. When the detector finds no peak or one peak in the profile of the calibration
  image, the calibration raises and returns no wavelengths: \<^verbatim>\<open>ValueError\<close> from
  \<^verbatim>\<open>np.argmax\<close> for no peak, \<^verbatim>\<open>ValueError\<close> from the unpacking into two anchors for
  one peak (\<^verbatim>\<open>IndexError\<close> should that peak lie outside the profile). The empty list is
  an ordinary result of the detector: the reference detector returns it, for one, on every
  flat profile.
\<close>

theorem fewer_than_two_peaks:
  assumes "get_column_intensity imread He_file = Inr intensity"
    and "find_peaks intensity = peaks"
    and "length peaks < 2"
  shows "get_wavelength_from_He imread find_peaks He_file offset =
           Inl (if peaks = [] then ValueError_argmax
                else if list_all (\<lambda>p. p < length intensity) peaks then ValueError_unpack
                else IndexError)
       \<and> scipy_find_peaks (replicate n c) = []"
proof -
  from assms(3) consider "peaks = []" | p where "peaks = [p]"
    by (cases peaks; cases "tl peaks") auto
  then have "pixel_to_wavelen find_peaks intensity offset =
           Inl (if peaks = [] then ValueError_argmax
                else if list_all (\<lambda>p. p < length intensity) peaks then ValueError_unpack
                else IndexError)"
  proof cases
    case 1
    then show ?thesis using assms(2) by (simp add: pixel_to_wavelen_no_peaks)
  next
    case 2
    then show ?thesis using assms(2) by (simp add: pixel_to_wavelen_one_peak)
  qed
  then show ?thesis
    using assms(1) by (simp add: get_wavelength_from_He_def find_peaks_flat)
qed

theorem fewer_than_two_peaks_witness:
  "get_column_intensity example_files ''lamp.png'' = Inr [0, 15, 0]
   \<and> scipy_find_peaks [0, 15, 0] = [1]
   \<and> length [1 :: nat] < 2
   \<and> get_wavelength_from_He example_files scipy_find_peaks ''lamp.png'' 0 = Inl ValueError_unpack
   \<and> scipy_find_peaks (replicate 5 7) = []"
  using fewer_than_two_peaks [of example_files "''lamp.png''" "[0, 15, 0]" scipy_find_peaks "[1]" 0 5 7]
    column_intensity_lamp detector_on_lamp
  by simp

subsection \<open>The calibration on the example images\<close>

lemma pixel_to_wavelen_He:
  "pixel_to_wavelen scipy_find_peaks (synthetic_profile 400) 0 =
     Inr \<lparr>lam_m = Finite (8627 / 20000), lam_b = Finite (459465 / 1000)\<rparr>"
proof -
  have "pixel_to_wavelen scipy_find_peaks (synthetic_profile 400) 0 =
          get_linear_transformation (Np (of_int (100 + 0))) (Np (of_int (300 + 0)))
            (Py 502.60) (Py 588.87)"
    by (rule pixel_to_wavelen_synthetic) (simp_all add: detector_on_synthetic)
  also have "\<dots> = Inr \<lparr>lam_m = Finite (8627 / 20000), lam_b = Finite (459465 / 1000)\<rparr>"
    by (simp add: get_linear_transformation_regular)
  finally show ?thesis .
qed

lemma wavelengths_He:
  "get_wavelength_from_He example_files scipy_find_peaks ''He.png'' 0 =
     Inr (map (\<lambda>i. Finite (8627 / 20000 * real i + 459465 / 1000)) [0..<400])"
  by (simp add: get_wavelength_from_He_def column_intensity_He pixel_to_wavelen_He
        synthetic_profile_values)

subsection \<open>The plot flag\<close>

text \<open>
  Claim C6, as stated, fails: the flag is examined only after both images have been loaded
  and the calibration has been computed. With the unrecognised flag \<^verbatim>\<open>'foo'\<close>, a file
  that cannot be decoded raises \<^verbatim>\<open>cv2.error\<close>, and a calibration image with a single
  peak raises the \<^verbatim>\<open>ValueError\<close> of the unpacking; the invalid-flag error is raised in
  neither run.
\<close>

theorem invalid_plot_flag_counterexample:
  "PyStr ''foo'' \<notin> recognized_plot
   \<and> get_spectrum example_files scipy_find_peaks ''missing.png'' ''missing.png'' (PyStr ''foo'') 0
       = Inl CvError
   \<and> get_spectrum example_files scipy_find_peaks ''lamp.png'' ''lamp.png'' (PyStr ''foo'') 0
       = Inl ValueError_unpack"
proof -
  have "get_wavelength_from_He example_files scipy_find_peaks ''lamp.png'' 0 = Inl ValueError_unpack"
    by (simp add: get_wavelength_from_He_def column_intensity_lamp
          pixel_to_wavelen_one_peak detector_on_lamp)
  then show ?thesis
    by (simp add: recognized_plot_def get_spectrum_def get_wavelength_from_He_def
          get_column_intensity_def example_files_def)
qed

text \<open>
  Claim C6, amended. \<^verbatim>\<open>get_spectrum\<close> raises the invalid-flag error exactly when the flag
  is outside \<open>{False, True, 'above', 'over'}\<close> and both the calibration and the extraction
  of the target profile have succeeded. In particular it never raises it for a flag in
  that set.
\<close>

theorem invalid_plot_flag:
  "(get_spectrum imread find_peaks file He_file plot spectrum_offset = Inl ValueError_plot) =
     (plot \<notin> recognized_plot
      \<and> (\<exists>wavelengths. get_wavelength_from_He imread find_peaks He_file spectrum_offset
                          = Inr wavelengths)
      \<and> (\<exists>intensity. get_column_intensity imread file = Inr intensity))"
proof (cases "get_wavelength_from_He imread find_peaks He_file spectrum_offset")
  case (Inl e)
  then have "e \<noteq> ValueError_plot"
    using get_wavelength_from_He_error by fastforce
  with Inl show ?thesis by (simp add: get_spectrum_def)
next
  case wl: (Inr wavelengths)
  show ?thesis
  proof (cases "get_column_intensity imread file")
    case (Inl e)
    then have "e \<noteq> ValueError_plot"
      using get_column_intensity_error by fastforce
    with wl Inl show ?thesis by (simp add: get_spectrum_def)
  next
    case (Inr intensity)
    with wl show ?thesis
      by (auto simp add: get_spectrum_def recognized_plot_def)
  qed
qed

theorem invalid_plot_flag_witness:
  "get_spectrum example_files scipy_find_peaks ''lamp.png'' ''He.png'' (PyStr ''foo'') 0
     = Inl ValueError_plot
   \<and> get_spectrum example_files scipy_find_peaks ''lamp.png'' ''He.png'' (PyStr ''over'') 0
     \<noteq> Inl ValueError_plot"
  using invalid_plot_flag [of example_files scipy_find_peaks "''lamp.png''" "''He.png''" "PyStr ''foo''" 0]
    invalid_plot_flag [of example_files scipy_find_peaks "''lamp.png''" "''He.png''" "PyStr ''over''" 0]
  by (simp add: wavelengths_He column_intensity_lamp recognized_plot_def)

subsection \<open>The assembled spectrum\<close>

text \<open>
  Claim C1, as stated, fails: for a target image of 3 columns and a calibration image of
  400 columns \<^verbatim>\<open>get_spectrum\<close> returns 400 wavelengths and 3 intensities. The wavelength
  array has one entry for each column of the calibration image.
\<close>

theorem spectrum_arrays_counterexample:
  "spectrum_lengths
     (get_spectrum example_files scipy_find_peaks ''lamp.png'' ''He.png'' (PyBool False) 0)
     = Some (400, 3)"
  by (simp add: spectrum_lengths_def get_spectrum_def wavelengths_He column_intensity_lamp)

text \<open>
  Claim C1, amended. When \<^verbatim>\<open>get_spectrum\<close> returns, the intensity array is the profile of
  the target image, one entry for each of its columns; the wavelength array has one entry
  for each column of the calibration image, entry \<open>i\<close> being the fitted transform applied
  to pixel index \<open>i\<close>; the two arrays have the same length exactly when the two images
  have the same width.
\<close>

theorem spectrum_arrays:
  assumes "get_spectrum imread find_peaks file He_file plot spectrum_offset
             = Inr (wavelengths, intensity, fig)"
    and "imread file = Some target" and "imread He_file = Some helium"
  shows "get_column_intensity imread file = Inr intensity
       \<and> length intensity = width target
       \<and> length wavelengths = width helium
       \<and> (\<exists>He_intensity f.
             get_column_intensity imread He_file = Inr He_intensity
           \<and> pixel_to_wavelen find_peaks He_intensity spectrum_offset = Inr f
           \<and> wavelengths = map (\<lambda>i. call f (Finite (real i))) [0..<width helium])
       \<and> ((length wavelengths = length intensity) = (width helium = width target))"
proof -
  from assms(1) obtain ws where
    ws: "get_wavelength_from_He imread find_peaks He_file spectrum_offset = Inr ws"
    by (cases "get_wavelength_from_He imread find_peaks He_file spectrum_offset")
       (simp_all add: get_spectrum_def)
  from assms(1) ws obtain ints where ints: "get_column_intensity imread file = Inr ints"
    by (cases "get_column_intensity imread file") (simp_all add: get_spectrum_def)
  from assms(1) ws ints have eq: "ws = wavelengths" "ints = intensity"
    by (simp_all add: get_spectrum_def split: if_splits)
  from ws obtain He_intensity where
    he: "get_column_intensity imread He_file = Inr He_intensity"
    by (cases "get_column_intensity imread He_file") (simp_all add: get_wavelength_from_He_def)
  from ws he obtain f where
    f: "pixel_to_wavelen find_peaks He_intensity spectrum_offset = Inr f"
    by (cases "pixel_to_wavelen find_peaks He_intensity spectrum_offset")
       (simp_all add: get_wavelength_from_He_def)
  from ws he f have wsf: "ws = map (\<lambda>i. call f (Finite (real i))) [0..<length He_intensity]"
    by (simp add: get_wavelength_from_He_def)
  from he assms(3) have lh: "length He_intensity = width helium"
    by (auto simp add: get_column_intensity_def split: if_splits)
  from ints assms(2) have li: "length ints = width target"
    by (auto simp add: get_column_intensity_def split: if_splits)
  from ints eq he f wsf lh li show ?thesis by auto
qed

theorem spectrum_arrays_witness:
  "get_spectrum example_files scipy_find_peaks ''lamp.png'' ''He.png'' (PyBool False) 0
     = Inr (map (\<lambda>i. Finite (8627 / 20000 * real i + 459465 / 1000)) [0..<400], [0, 15, 0], None)
   \<and> example_files ''lamp.png'' = Some lamp_image
   \<and> example_files ''He.png'' = Some (synthetic_image 400)
   \<and> length [0, 15, 0 :: real] = width lamp_image
   \<and> length (map (\<lambda>i. Finite (8627 / 20000 * real i + 459465 / 1000)) [0..<400])
       = width (synthetic_image 400)"
proof -
  have run: "get_spectrum example_files scipy_find_peaks ''lamp.png'' ''He.png'' (PyBool False) 0
     = Inr (map (\<lambda>i. Finite (8627 / 20000 * real i + 459465 / 1000)) [0..<400], [0, 15, 0], None)"
    by (simp add: get_spectrum_def wavelengths_He column_intensity_lamp)
  have t: "example_files ''lamp.png'' = Some lamp_image"
    and h: "example_files ''He.png'' = Some (synthetic_image 400)"
    by (simp_all add: example_files_def)
  from spectrum_arrays [of example_files scipy_find_peaks "''lamp.png''" "''He.png''"
      "PyBool False" 0 _ _ _ lamp_image "synthetic_image 400", OF run t h]
  show ?thesis using run t h by simp
qed

subsection \<open>Monotone wavelengths\<close>

lemma fit_increasing:
  assumes "u < v" and "val y0 < val y1"
  shows "\<exists>m c. 0 < m \<and> get_linear_transformation (Np (of_int u)) (Np (of_int v)) y0 y1
                          = Inr \<lparr>lam_m = Finite m, lam_b = Finite c\<rparr>"
proof -
  have ne: "val (Np (of_int u)) \<noteq> val (Np (of_int v))" using assms(1) by simp
  have "0 < (val y1 - val y0) / (of_int v - of_int u)"
    using assms by simp
  with get_linear_transformation_regular [OF ne, of y0 y1] show ?thesis
    by auto
qed

lemma pixel_to_wavelen_increasing:
  assumes "find_peaks intensity = peaks" and "2 \<le> length peaks"
    and "sorted_wrt (<) peaks" and "\<forall>p\<in>set peaks. p < length intensity"
  shows "\<exists>m c. 0 < m \<and> pixel_to_wavelen find_peaks intensity offset
                          = Inr \<lparr>lam_m = Finite m, lam_b = Finite c\<rparr>"
proof -
  have "map (\<lambda>p. intensity ! p) peaks \<noteq> []" using assms(2) by auto
  then obtain k where mx: "first_max (map (\<lambda>p. intensity ! p) peaks) k"
    using argmax_first_max by blast
  show ?thesis
  proof (cases "k = 0")
    case True
    from assms(2) obtain p0 p1 rest where peaks: "peaks = p0 # p1 # rest"
      by (cases peaks; cases "tl peaks") auto
    have "p0 < p1" using assms(3) by (simp add: peaks)
    then have lt: "int p0 + offset < int p1 + offset" by simp
    have "pixel_to_wavelen find_peaks intensity offset =
            get_linear_transformation (Np (of_int (int p0 + offset))) (Np (of_int (int p1 + offset)))
              (Py 588.87) (Py 669.07)"
      using assms(1,4) mx True unfolding peaks by (intro pixel_to_wavelen_first) simp_all
    with fit_increasing [OF lt, of "Py 588.87" "Py 669.07"] show ?thesis by simp
  next
    case False
    then have k: "0 < k" "k < length peaks"
      using mx by (simp_all add: first_max_def)
    then have "peaks ! (k - 1) < peaks ! k"
      using assms(3) by (simp add: sorted_wrt_nth_less)
    then have lt: "int (peaks ! (k - 1)) + offset < int (peaks ! k) + offset" by simp
    have "pixel_to_wavelen find_peaks intensity offset =
            get_linear_transformation
              (Np (of_int (int (peaks ! (k - 1)) + offset))) (Np (of_int (int (peaks ! k) + offset)))
              (Py 502.60) (Py 588.87)"
      using assms(1) k assms(4) mx by (rule pixel_to_wavelen_later)
    with fit_increasing [OF lt, of "Py 502.60" "Py 588.87"] show ?thesis by simp
  qed
qed

lemma affine_strictly_increasing:
  assumes "0 < (m :: real)"
  shows "sorted_wrt (<) (map (\<lambda>i. m * real i + c) [0..<n])"
proof -
  have "sorted_wrt (\<lambda>i j. m * real i + c < m * real j + c) [0..<n]"
    by (rule sorted_wrt_mono_rel [of _ "(<)"]) (use assms in simp_all)
  then show ?thesis by (simp add: sorted_wrt_map)
qed

text \<open>
  Claim C10. When the detector returns at least two peaks of the calibration profile, in
  ascending pixel order and inside the profile, the calibration returns: the fitted slope
  is strictly positive, and the wavelengths are strictly increasing in the pixel index
  (in the exact arithmetic of the embedding).
\<close>

theorem wavelengths_strictly_increasing:
  assumes "get_column_intensity imread He_file = Inr intensity"
    and "find_peaks intensity = peaks" and "2 \<le> length peaks"
    and "sorted_wrt (<) peaks" and "\<forall>p\<in>set peaks. p < length intensity"
  shows "\<exists>m c. 0 < m
           \<and> pixel_to_wavelen find_peaks intensity offset = Inr \<lparr>lam_m = Finite m, lam_b = Finite c\<rparr>
           \<and> get_wavelength_from_He imread find_peaks He_file offset
               = Inr (map (\<lambda>i. Finite (m * real i + c)) [0..<length intensity])
           \<and> sorted_wrt (<) (map (\<lambda>i. m * real i + c) [0..<length intensity])"
proof -
  from pixel_to_wavelen_increasing [of find_peaks intensity peaks offset, OF assms(2-5)]
  obtain m c where m: "0 < m"
    and f: "pixel_to_wavelen find_peaks intensity offset = Inr \<lparr>lam_m = Finite m, lam_b = Finite c\<rparr>"
    by blast
  have "get_wavelength_from_He imread find_peaks He_file offset
          = Inr (map (\<lambda>i. Finite (m * real i + c)) [0..<length intensity])"
    using assms(1) f by (simp add: get_wavelength_from_He_def)
  with m f affine_strictly_increasing [OF m] show ?thesis by blast
qed

theorem wavelengths_strictly_increasing_witness:
  "get_column_intensity example_files ''He.png'' = Inr (synthetic_profile 400)
   \<and> scipy_find_peaks (synthetic_profile 400) = [100, 300]
   \<and> (\<exists>m c. 0 < m
         \<and> get_wavelength_from_He example_files scipy_find_peaks ''He.png'' 0
             = Inr (map (\<lambda>i. Finite (m * real i + c)) [0..<400])
         \<and> sorted_wrt (<) (map (\<lambda>i. m * real i + c) [0..<400]))"
proof -
  have h3: "2 \<le> length [100, 300 :: nat]" by simp
  have h4: "sorted_wrt (<) [100, 300 :: nat]" by simp
  have h5: "\<forall>p\<in>set [100, 300]. p < length (synthetic_profile 400)"
    by (simp add: synthetic_profile_values)
  have len: "length (synthetic_profile 400) = 400"
    by (simp add: synthetic_profile_values)
  from wavelengths_strictly_increasing [of example_files "''He.png''" "synthetic_profile 400"
      scipy_find_peaks "[100, 300]" 0, OF column_intensity_He detector_on_synthetic h3 h4 h5]
  obtain m c where "0 < m"
    and "get_wavelength_from_He example_files scipy_find_peaks ''He.png'' 0
           = Inr (map (\<lambda>i. Finite (m * real i + c)) [0..<400])"
    and "sorted_wrt (<) (map (\<lambda>i. m * real i + c) [0..<400])"
    unfolding len by blast
  with column_intensity_He detector_on_synthetic show ?thesis by blast
qed

subsection \<open>The synthetic calibration image\<close>

text \<open>
  Claim C3, as stated, fails: on the single-row image with brightness 50 in column 100 and
  80 in column 300 (400 columns wide), with offset 0, the brighter peak is the second one,
  so the anchors are bound to 502.60 and 588.87: pixel 100 is given 502.60, not 588.87,
  and pixel 300 is given 588.87, not 669.07.
\<close>

theorem synthetic_calibration_counterexample:
  "wavelength_at (get_wavelength_from_He example_files scipy_find_peaks ''He.png'' 0) 100
     = Some (Finite 502.60)
   \<and> wavelength_at (get_wavelength_from_He example_files scipy_find_peaks ''He.png'' 0) 100
     \<noteq> Some (Finite 588.87)
   \<and> wavelength_at (get_wavelength_from_He example_files scipy_find_peaks ''He.png'' 0) 300
     = Some (Finite 588.87)
   \<and> wavelength_at (get_wavelength_from_He example_files scipy_find_peaks ''He.png'' 0) 300
     \<noteq> Some (Finite 669.07)"
  by (simp add: wavelength_at_def wavelengths_He)

text \<open>
  Claim C3, amended. For that image, of any width above 300, with offset 0 and a detector
  that reports exactly the peaks at pixels 100 and 300, the calibration transform maps
  pixel 100 to 502.60 and pixel 300 to 588.87, and these are entries 100 and 300 of the
  returned wavelengths.
\<close>

theorem synthetic_calibration:
  assumes "imread He_file = Some (synthetic_image w)" and "300 < w"
    and "find_peaks (synthetic_profile w) = [100, 300]"
  shows "\<exists>f. pixel_to_wavelen find_peaks (synthetic_profile w) 0 = Inr f
           \<and> call f (Finite 100) = Finite 502.60
           \<and> call f (Finite 300) = Finite 588.87
           \<and> get_wavelength_from_He imread find_peaks He_file 0
               = Inr (map (\<lambda>i. call f (Finite (real i))) [0..<w])
           \<and> wavelength_at (get_wavelength_from_He imread find_peaks He_file 0) 100
               = Some (Finite 502.60)
           \<and> wavelength_at (get_wavelength_from_He imread find_peaks He_file 0) 300
               = Some (Finite 588.87)"
proof -
  let ?f = "\<lparr>lam_m = Finite (8627 / 20000), lam_b = Finite (459465 / 1000)\<rparr>"
  have "pixel_to_wavelen find_peaks (synthetic_profile w) 0 =
          get_linear_transformation (Np (of_int (100 + 0))) (Np (of_int (300 + 0)))
            (Py 502.60) (Py 588.87)"
    using assms(2,3) by (rule pixel_to_wavelen_synthetic)
  also have "\<dots> = Inr ?f"
    by (simp add: get_linear_transformation_regular)
  finally have f: "pixel_to_wavelen find_peaks (synthetic_profile w) 0 = Inr ?f" .
  have c1: "call ?f (Finite 100) = Finite 502.60" by simp
  have c3: "call ?f (Finite 300) = Finite 588.87" by simp
  have ws: "get_wavelength_from_He imread find_peaks He_file 0
              = Inr (map (\<lambda>i. call ?f (Finite (real i))) [0..<w])"
    using column_intensity_synthetic [of imread He_file w, OF assms(1)] f assms(2)
    by (simp add: get_wavelength_from_He_def synthetic_profile_values)
  have a1: "wavelength_at (get_wavelength_from_He imread find_peaks He_file 0) 100
              = Some (Finite 502.60)"
    using assms(2) by (simp add: ws wavelength_at_def)
  have a3: "wavelength_at (get_wavelength_from_He imread find_peaks He_file 0) 300
              = Some (Finite 588.87)"
    using assms(2) by (simp add: ws wavelength_at_def)
  from f c1 c3 ws a1 a3 show ?thesis by blast
qed

theorem synthetic_calibration_witness:
  "example_files ''He.png'' = Some (synthetic_image 400) \<and> (300 :: nat) < 400
   \<and> scipy_find_peaks (synthetic_profile 400) = [100, 300]
   \<and> (\<exists>f. pixel_to_wavelen scipy_find_peaks (synthetic_profile 400) 0 = Inr f
          \<and> call f (Finite 100) = Finite 502.60
          \<and> call f (Finite 300) = Finite 588.87)"
proof -
  have h1: "example_files ''He.png'' = Some (synthetic_image 400)"
    by (simp add: example_files_def)
  have h2: "(300 :: nat) < 400" by simp
  from synthetic_calibration [of example_files "''He.png''" 400 scipy_find_peaks,
      OF h1 h2 detector_on_synthetic]
  show ?thesis using h1 detector_on_synthetic by auto
qed

subsection \<open>The reference detector as a detector\<close>

lemma plateau_end_le:
  "i_ahead \<le> length x - 1 \<Longrightarrow> plateau_end x i i_ahead \<le> length x - 1"
proof (induction x i i_ahead rule: plateau_end.induct)
  case (1 x i i_ahead)
  show ?case
  proof (cases "i_ahead < length x - 1 \<and> x ! i_ahead = x ! i")
    case True
    then have "plateau_end x i i_ahead = plateau_end x i (i_ahead + 1)"
      by (subst plateau_end.simps) simp
    with 1 True show ?thesis by simp
  next
    case False
    then have "plateau_end x i i_ahead = i_ahead"
      by (subst plateau_end.simps) auto
    with 1 show ?thesis by simp
  qed
qed

lemma local_maxima_from_bounds:
  "p \<in> set (local_maxima_from x i) \<Longrightarrow> i \<le> p \<and> p < length x - 1"
proof (induction x i arbitrary: p rule: local_maxima_from.induct)
  case (1 x i)
  show ?case
  proof (cases "i < length x - 1")
    case False
    with "1.prems" show ?thesis by (subst (asm) local_maxima_from.simps) simp
  next
    case inside: True
    show ?thesis
    proof (cases "x ! (i - 1) < x ! i")
      case False
      with inside "1.prems" have "p \<in> set (local_maxima_from x (i + 1))"
        by (subst (asm) local_maxima_from.simps) simp
      with "1.IH"(3) [OF inside False] show ?thesis by fastforce
    next
      case rise: True
      define e where "e = plateau_end x i (i + 1)"
      have ge: "i + 1 \<le> e" unfolding e_def by (rule plateau_end_ge)
      have le: "e \<le> length x - 1" unfolding e_def using inside by (intro plateau_end_le) simp
      show ?thesis
      proof (cases "x ! e < x ! i")
        case False
        with inside rise "1.prems" have "p \<in> set (local_maxima_from x (i + 1))"
          by (subst (asm) local_maxima_from.simps) (simp add: e_def Let_def)
        with "1.IH"(2) [OF inside rise e_def False] show ?thesis by fastforce
      next
        case fall: True
        with inside rise "1.prems"
        have "p = (i + (e - 1)) div 2 \<or> p \<in> set (local_maxima_from x (e + 1))"
          by (subst (asm) local_maxima_from.simps) (simp add: e_def Let_def)
        then show ?thesis
        proof
          assume "p = (i + (e - 1)) div 2"
          with ge le show ?thesis by auto
        next
          assume "p \<in> set (local_maxima_from x (e + 1))"
          with "1.IH"(1) [OF inside rise e_def fall] ge show ?thesis by fastforce
        qed
      qed
    qed
  qed
qed

lemma local_maxima_from_sorted: "sorted_wrt (<) (local_maxima_from x i)"
proof (induction x i rule: local_maxima_from.induct)
  case (1 x i)
  show ?case
  proof (cases "i < length x - 1")
    case False
    then have "local_maxima_from x i = []"
      by (subst local_maxima_from.simps) simp
    then show ?thesis by simp
  next
    case inside: True
    show ?thesis
    proof (cases "x ! (i - 1) < x ! i")
      case False
      have "local_maxima_from x i = local_maxima_from x (i + 1)"
        using inside False by (subst local_maxima_from.simps) simp
      with "1.IH"(3) [OF inside False] show ?thesis by simp
    next
      case rise: True
      define e where "e = plateau_end x i (i + 1)"
      have ge: "i + 1 \<le> e" unfolding e_def by (rule plateau_end_ge)
      show ?thesis
      proof (cases "x ! e < x ! i")
        case False
        have "local_maxima_from x i = local_maxima_from x (i + 1)"
          using inside rise False unfolding e_def
          by (subst local_maxima_from.simps) (simp add: Let_def)
        with "1.IH"(2) [OF inside rise e_def False] show ?thesis by simp
      next
        case fall: True
        have unfold: "local_maxima_from x i = ((i + (e - 1)) div 2) # local_maxima_from x (e + 1)"
          using inside rise fall unfolding e_def
          by (subst local_maxima_from.simps) (simp add: Let_def)
        have rest: "sorted_wrt (<) (local_maxima_from x (e + 1))"
          by (rule "1.IH"(1) [OF inside rise e_def fall])
        have above: "(i + (e - 1)) div 2 < q" if "q \<in> set (local_maxima_from x (e + 1))" for q
        proof -
          from that have "e + 1 \<le> q" using local_maxima_from_bounds by blast
          with ge show ?thesis by linarith
        qed
        from unfold rest above show ?thesis by simp
      qed
    qed
  qed
qed

lemma kept_subset: "set (map fst (filter snd (zip xs ks))) \<subseteq> set xs"
  by (auto dest: set_zip_leftD)

lemma kept_sorted:
  "sorted_wrt (<) xs \<Longrightarrow> sorted_wrt (<) (map fst (filter snd (zip xs ks)))"
proof (induction xs arbitrary: ks)
  case Nil
  then show ?case by simp
next
  case (Cons a xs)
  show ?case
  proof (cases ks)
    case Nil
    then show ?thesis by simp
  next
    case ks: (Cons k ks')
    have sub: "set (map fst (filter snd (zip xs ks'))) \<subseteq> set xs"
      by (rule kept_subset)
    have "\<forall>q\<in>set xs. a < q" using Cons.prems by simp
    with sub have above: "\<forall>q\<in>set (map fst (filter snd (zip xs ks'))). a < q" by blast
    have rest: "sorted_wrt (<) (map fst (filter snd (zip xs ks')))"
      using Cons.prems by (intro Cons.IH) simp
    show ?thesis
    proof (cases k)
      case True
      have "map fst (filter snd (zip (a # xs) ks)) = a # map fst (filter snd (zip xs ks'))"
        by (simp add: ks True)
      with above rest show ?thesis by simp
    next
      case False
      have "map fst (filter snd (zip (a # xs) ks)) = map fst (filter snd (zip xs ks'))"
        by (simp add: ks False)
      with rest show ?thesis by simp
    qed
  qed
qed

text \<open>
  The reference detector meets the conditions that the theorems about the calibration ask
  of a detector: its peaks come in strictly ascending pixel order and lie inside the
  profile.
\<close>

lemma find_peaks_ref_ascending: "sorted_wrt (<) (find_peaks_ref prominence distance x)"
proof -
  have "sorted_wrt (<) (local_maxima_1d x)"
    unfolding local_maxima_1d_def by (rule local_maxima_from_sorted)
  then have kept: "sorted_wrt (<) (map fst (filter snd (zip (local_maxima_1d x)
      (select_by_peak_distance (local_maxima_1d x) (map (\<lambda>p. x ! p) (local_maxima_1d x)) distance))))"
    by (rule kept_sorted)
  show ?thesis
    unfolding find_peaks_ref_def Let_def by (rule sorted_wrt_filter) (rule kept)
qed

lemma find_peaks_ref_in_range:
  assumes "p \<in> set (find_peaks_ref prominence distance x)"
  shows "p < length x"
proof -
  from assms have "p \<in> set (filter (\<lambda>p. prominence \<le> peak_prominence x p)
      (map fst (filter snd (zip (local_maxima_1d x)
        (select_by_peak_distance (local_maxima_1d x) (map (\<lambda>p. x ! p) (local_maxima_1d x)) distance)))))"
    unfolding find_peaks_ref_def Let_def .
  then have "p \<in> set (map fst (filter snd (zip (local_maxima_1d x)
      (select_by_peak_distance (local_maxima_1d x) (map (\<lambda>p. x ! p) (local_maxima_1d x)) distance))))"
    by (rule subsetD [OF filter_is_subset])
  then have "p \<in> set (local_maxima_1d x)"
    by (rule subsetD [OF kept_subset])
  then have "p \<in> set (local_maxima_from x 1)"
    unfolding local_maxima_1d_def .
  then have "p < length x - 1"
    by (rule local_maxima_from_bounds [THEN conjunct2])
  then show ?thesis by simp
qed

lemma scipy_find_peaks_contract:
  "sorted_wrt (<) (scipy_find_peaks x) \<and> (\<forall>p\<in>set (scipy_find_peaks x). p < length x)"
  unfolding scipy_find_peaks_def
  using find_peaks_ref_ascending find_peaks_ref_in_range by blast

end
